theory Spec2Isabelle
  imports Complex_Main
begin

section \<open>Engineering drawings from cross-sections of a mesh\<close>

text \<open>
  A shallow embedding of \<^verbatim>\<open>3d_synthetic_data_generator.py\<close>. Python floats are
  idealised as reals. The calls into trimesh and matplotlib.pyplot are parameters of the
  model (the record \<open>api\<close>); the drawing calls made on an axes object are recorded, in
  order and with the arguments the source passes, as a list of commands.
\<close>

subsection \<open>Exceptions\<close>

text \<open>
  The exception classes the script can meet, each with the text \<^verbatim>\<open>str(e)\<close> needs;
  \<open>KeyError\<close> carries the missing key. All of them are subclasses of \<^verbatim>\<open>Exception\<close>.
\<close>

datatype error =
    FileNotFoundError string
  | KeyError string
  | IndexError string
  | TypeError string
  | AttributeError string
  | OtherError string

definition quoted :: "string \<Rightarrow> string" where
  "quoted s = [CHR 0x27] @ s @ [CHR 0x27]"


subsection \<open>Formatting a float with two decimals\<close>

text \<open>
  \<^verbatim>\<open>f"{x:.2f}"\<close> prints the decimal nearest to the value with two digits after the
  point, ties to the even neighbour, and a minus sign for a negative value.
\<close>

definition round_half_even :: "real \<Rightarrow> int" where
  "round_half_even x =
     (let f = \<lfloor>x\<rfloor>; d = x - of_int f
      in if d < 1 / 2 then f else if 1 / 2 < d then f + 1 else if even f then f else f + 1)"

definition digit_char :: "nat \<Rightarrow> char" where
  "digit_char d = ''0123456789'' ! d"

fun str_nat :: "nat \<Rightarrow> string" where
  "str_nat n = (if n < 10 then [digit_char n] else str_nat (n div 10) @ [digit_char (n mod 10)])"

declare str_nat.simps [simp del]

definition format_2f :: "real \<Rightarrow> string" where
  "format_2f x =
     (let n = nat (round_half_even (\<bar>x\<bar> * 100))
      in (if x < 0 then ''-'' else '''') @ str_nat (n div 100) @ ''.'' @
         [digit_char (n mod 100 div 10), digit_char (n mod 10)])"

subsection \<open>Geometry and the drawing canvas\<close>

type_synonym vec3 = "real \<times> real \<times> real"
type_synonym pt2 = "real \<times> real"

text \<open>
  A trimesh \<^verbatim>\<open>Path2D\<close>, by the two attributes the script reads: the polylines
  \<^verbatim>\<open>discrete\<close> and the bounding box \<^verbatim>\<open>bounds\<close> (minimum corner, maximum corner).
\<close>

record path2D =
  discrete :: "pt2 list list"
  bounds :: "pt2 \<times> pt2"

text \<open>Keyword arguments, as written at the call.\<close>

datatype kw = S string | N real | P pt2 | D "(string \<times> kw) list"

datatype path_code = MOVETO | LINETO | CLOSEPOLY

datatype patch =
    PathPatch "pt2 list" "path_code list" "(string \<times> kw) list"
  | Rectangle pt2 real real "(string \<times> kw) list"

text \<open>The calls made on an axes object.\<close>

datatype cmd =
    Plot "real list" "real list" "string option" "(string \<times> kw) list"
  | Annotate string "(string \<times> kw) list"
  | Text real real string "(string \<times> kw) list"
  | AddPatch patch
  | SetTitle string "(string \<times> kw) list"
  | SetXlim real real
  | SetYlim real real
  | SetAspect string
  | Axis string

type_synonym rect = "real \<times> real \<times> real \<times> real"

text \<open>An axes object: where \<^verbatim>\<open>fig.add_axes\<close> put it, and the calls made on it so far.\<close>

record axes =
  position :: rect
  cmds :: "cmd list"

definition add_axes :: "rect \<Rightarrow> axes" where
  "add_axes pos = \<lparr>position = pos, cmds = []\<rparr>"

definition call :: "axes \<Rightarrow> cmd list \<Rightarrow> axes" where
  "call ax cs = ax\<lparr>cmds := cmds ax @ cs\<rparr>"

subsection \<open>Dimension annotations\<close>

definition extension_style :: "(string \<times> kw) list" where
  "extension_style = [(''linestyle'', S ''--''), (''color'', S ''gray''), (''linewidth'', N (8 / 10))]"

definition arrowprops :: "(string \<times> kw) list" where
  "arrowprops = [(''arrowstyle'', S ''<->''), (''color'', S ''blue''), (''linewidth'', N 1)]"

definition add_dimension_annotations :: "axes \<Rightarrow> path2D \<Rightarrow> string \<Rightarrow> axes" where
  "add_dimension_annotations ax path2D view_name =
     (let (min_pt, max_pt) = bounds path2D;
          width = fst max_pt - fst min_pt;
          height = snd max_pt - snd min_pt;
          offset = max width height * (15 / 100);
          y_dim = snd min_pt - offset;
          x_dim = fst max_pt + offset
      in call ax
        [Plot [fst min_pt, fst min_pt] [snd min_pt, y_dim] None extension_style,
         Plot [fst max_pt, fst max_pt] [snd max_pt, y_dim] None extension_style,
         Annotate '''' [(''xy'', P (fst min_pt, y_dim)), (''xytext'', P (fst max_pt, y_dim)),
                        (''arrowprops'', D arrowprops)],
         Text ((fst min_pt + fst max_pt) / 2) (y_dim - offset * (1 / 10))
              (format_2f width @ '' mm'')
              [(''ha'', S ''center''), (''va'', S ''top''), (''fontsize'', N 8),
               (''color'', S ''blue'')],
         Plot [x_dim, fst max_pt] [snd max_pt, snd max_pt] None extension_style,
         Plot [x_dim, fst min_pt] [snd min_pt, snd min_pt] None extension_style,
         Annotate '''' [(''xy'', P (x_dim, snd min_pt)), (''xytext'', P (x_dim, snd max_pt)),
                        (''arrowprops'', D arrowprops)],
         Text (x_dim + offset * (1 / 10)) ((snd min_pt + snd max_pt) / 2)
              (format_2f height @ '' mm'')
              [(''ha'', S ''left''), (''va'', S ''center''), (''fontsize'', N 8),
               (''color'', S ''blue''), (''rotation'', N 90)]])"

subsection \<open>Rendering one cross-section\<close>

text \<open>
  \<^verbatim>\<open>np.allclose(a, b, atol=tol)\<close> keeps numpy's default relative tolerance
  \<open>rtol = 1e-5\<close>: every coordinate must satisfy \<open>|a - b| \<le> atol + rtol * |b|\<close>.
\<close>

definition allclose :: "pt2 \<Rightarrow> pt2 \<Rightarrow> real \<Rightarrow> real \<Rightarrow> bool" where
  "allclose a b rtol atol =
     (\<bar>fst a - fst b\<bar> \<le> atol + rtol * \<bar>fst b\<bar> \<and> \<bar>snd a - snd b\<bar> \<le> atol + rtol * \<bar>snd b\<bar>)"

text \<open>\<^verbatim>\<open>path[0]\<close> raises on a polyline with no point.\<close>

definition is_path_closed :: "pt2 list \<Rightarrow> real \<Rightarrow> error + bool" where
  "is_path_closed path tol =
     (case path of
        [] \<Rightarrow> Inl (IndexError ''index 0 is out of bounds for axis 0 with size 0'')
      | p # ps \<Rightarrow> Inr (allclose p (last path) (1 / 100000) tol))"

text \<open>The body of the loop over \<^verbatim>\<open>path2D.discrete\<close>: the points handed to the polygon path.\<close>

definition closed_points :: "pt2 list \<Rightarrow> error + pt2 list" where
  "closed_points path =
     (case is_path_closed path (1 / 100) of
        Inl e \<Rightarrow> Inl e
      | Inr c \<Rightarrow> Inr (if \<not> c then path @ [hd path] else path))"

definition polygon_patch :: "pt2 list \<Rightarrow> patch" where
  "polygon_patch path =
     PathPatch path ([MOVETO] @ replicate (length path - 2) LINETO @ [CLOSEPOLY])
       [(''facecolor'', S ''none''), (''edgecolor'', S ''black''), (''lw'', N (15 / 10))]"

fun plot_polylines :: "axes \<Rightarrow> pt2 list list \<Rightarrow> error + axes" where
  "plot_polylines ax [] = Inr ax"
| "plot_polylines ax (path # rest) =
     (case closed_points path of
        Inl e \<Rightarrow> Inl e
      | Inr path' \<Rightarrow> plot_polylines (call ax [AddPatch (polygon_patch path')]) rest)"

definition plot_cross_section :: "axes \<Rightarrow> path2D option \<Rightarrow> string \<Rightarrow> bool \<Rightarrow> error + axes" where
  "plot_cross_section ax path2D_opt title show_dimensions =
     (case path2D_opt of
        None \<Rightarrow>
          Inr (call ax [SetTitle (title @ '' (No section)'')
                          [(''fontsize'', N 10), (''weight'', S ''bold'')],
                        Axis ''off''])
      | Some path2D \<Rightarrow>
          (case plot_polylines ax (discrete path2D) of
             Inl e \<Rightarrow> Inl e
           | Inr ax1 \<Rightarrow>
               (let ax2 = (if show_dimensions then add_dimension_annotations ax1 path2D title
                           else ax1);
                    (min_pt, max_pt) = bounds path2D;
                    padding = (2 / 10) * max (fst max_pt - fst min_pt) (snd max_pt - snd min_pt)
                in Inr (call ax2
                     [SetXlim (fst min_pt - padding) (fst max_pt + padding),
                      SetYlim (snd min_pt - padding) (snd max_pt + padding),
                      SetAspect ''equal'',
                      Axis ''off'']))))"

subsection \<open>The libraries\<close>

text \<open>
  What the script asks of trimesh, of matplotlib.pyplot and of the clock. A call that may
  raise returns a sum. \<open>mesh_section\<close> is \<^verbatim>\<open>mesh.section\<close>, \<open>mesh_bounds\<close> is \<^verbatim>\<open>mesh.bounds\<close> (minimum corner, maximum
  corner), which trimesh leaves \<^verbatim>\<open>None\<close> on a mesh without geometry; \<open>to_2D\<close> returns
  the planar path and the matrix back to 3D; \<open>figure_err\<close>, \<open>savefig_err\<close> and
  \<open>show_err\<close> say whether \<^verbatim>\<open>plt.figure\<close>, \<^verbatim>\<open>plt.savefig\<close> and
  \<^verbatim>\<open>plt.show\<close> raise; \<open>today\<close> is \<^verbatim>\<open>datetime.now().strftime("%Y-%m-%d")\<close>.
  The accessors of a mesh are read-only; \<open>apply_translation\<close> is the one method that
  changes it.
\<close>

record ('mesh, 'sec) api =
  load_mesh :: "string \<Rightarrow> error + 'mesh"
  center_mass :: "'mesh \<Rightarrow> vec3"
  apply_translation :: "'mesh \<Rightarrow> vec3 \<Rightarrow> 'mesh"
  mesh_bounds :: "'mesh \<Rightarrow> (vec3 \<times> vec3) option"
  mesh_section :: "'mesh \<Rightarrow> vec3 \<Rightarrow> vec3 \<Rightarrow> error + 'sec option"
  to_2D :: "'sec \<Rightarrow> error + path2D \<times> real list list"
  figure_err :: "error option"
  savefig_err :: "string \<Rightarrow> error option"
  show_err :: "error option"
  today :: string

fun neg3 :: "vec3 \<Rightarrow> vec3" where
  "neg3 (x, y, z) = (- x, - y, - z)"

fun add3 :: "vec3 \<Rightarrow> vec3 \<Rightarrow> vec3" where
  "add3 (x, y, z) (x', y', z') = (x + x', y + y', z + z')"

fun sub3 :: "vec3 \<Rightarrow> vec3 \<Rightarrow> vec3" where
  "sub3 (x, y, z) (x', y', z') = (x - x', y - y', z - z')"

subsection \<open>Loading, slicing, measuring\<close>

definition load_and_center_mesh :: "('mesh, 'sec) api \<Rightarrow> string \<Rightarrow> error + 'mesh" where
  "load_and_center_mesh L file_path =
     (case load_mesh L file_path of
        Inl e \<Rightarrow> Inl e
      | Inr mesh \<Rightarrow> Inr (apply_translation L mesh (neg3 (center_mass L mesh))))"

text \<open>
  The functions below receive the mesh object by reference; each returns, next to its
  result, the mesh as the call leaves it.
\<close>

definition get_cross_section ::
  "('mesh, 'sec) api \<Rightarrow> 'mesh \<Rightarrow> vec3 \<Rightarrow> vec3 \<Rightarrow> (error + path2D option) \<times> 'mesh" where
  "get_cross_section L mesh origin normal =
     (case mesh_section L mesh origin normal of
        Inl e \<Rightarrow> (Inl e, mesh)
      | Inr None \<Rightarrow> (Inr None, mesh)
      | Inr (Some sec) \<Rightarrow>
          (case to_2D L sec of
             Inl e \<Rightarrow> (Inl e, mesh)
           | Inr planar \<Rightarrow> (Inr (Some (fst planar)), mesh)))"

record mesh_dims =
  dim_length :: real
  dim_width :: real
  dim_height :: real
  dim_bounds :: "vec3 \<times> vec3"

definition get_mesh_dimensions :: "('mesh, 'sec) api \<Rightarrow> 'mesh \<Rightarrow> (error + mesh_dims) \<times> 'mesh" where
  "get_mesh_dimensions L mesh =
     (case mesh_bounds L mesh of
        None \<Rightarrow> (Inl (TypeError (quoted ''NoneType'' @ '' object is not subscriptable'')), mesh)
      | Some bnds \<Rightarrow>
          (let dimensions = sub3 (snd bnds) (fst bnds)
           in (Inr \<lparr>dim_length = fst dimensions,
                    dim_width = fst (snd dimensions),
                    dim_height = snd (snd dimensions),
                    dim_bounds = bnds\<rparr>, mesh)))"

subsection \<open>Drawing information\<close>

text \<open>A value of the metadata mapping: a string, or a nested mapping of strings.\<close>

datatype dval = Str string | Dict "(string \<times> string) list"

type_synonym info = "(string \<times> dval) list"

definition getitem :: "(string \<times> 'v) list \<Rightarrow> string \<Rightarrow> error + 'v" where
  "getitem d k = (case map_of d k of None \<Rightarrow> Inl (KeyError k) | Some v \<Rightarrow> Inr v)"

definition then_do :: "error + 'a \<Rightarrow> ('a \<Rightarrow> error + 'b) \<Rightarrow> error + 'b" where
  "then_do m f = (case m of Inl e \<Rightarrow> Inl e | Inr x \<Rightarrow> f x)"

definition plus_minus :: string where
  "plus_minus = [CHR 0xC2, CHR 0xB1]"

definition degree_sign :: string where
  "degree_sign = [CHR 0xC2, CHR 0xB0]"

definition micro :: string where
  "micro = [CHR 0xCE, CHR 0xBC]"

definition get_default_drawing_info :: "('mesh, 'sec) api \<Rightarrow> info" where
  "get_default_drawing_info L =
     [(''part_name'', Str ''PART NAME''),
      (''part_number'', Str ''PN-000-000''),
      (''material'', Str ''MATERIAL TBD''),
      (''scale'', Str ''1:1''),
      (''projection_method'', Str ''THIRD ANGLE''),
      (''drawing_number'', Str ''DWG-001''),
      (''revision'', Str ''A''),
      (''drawn_by'', Str ''ENGINEER''),
      (''checked_by'', Str ''CHECKER''),
      (''approved_by'', Str ''APPROVER''),
      (''date'', Str (today L)),
      (''company'', Str ''COMPANY NAME''),
      (''title'', Str ''ENGINEERING DRAWING''),
      (''units'', Str ''mm''),
      (''surface_finish'', Str (''3.2 '' @ micro @ ''m'')),
      (''tolerances'', Dict [(''linear'', plus_minus @ ''0.1''),
                             (''angular'', plus_minus @ ''0.5'' @ degree_sign)])]"

text \<open>
  \<^verbatim>\<open>drawing_info or self.get_default_drawing_info()\<close>: \<^verbatim>\<open>None\<close> and the empty
  mapping are falsy.
\<close>

record EngineeringDrawing =
  self_drawing_info :: info

definition EngineeringDrawing_init :: "('mesh, 'sec) api \<Rightarrow> info option \<Rightarrow> EngineeringDrawing" where
  "EngineeringDrawing_init L di =
     \<lparr>self_drawing_info = (case di of
                             None \<Rightarrow> get_default_drawing_info L
                           | Some d \<Rightarrow> if d = [] then get_default_drawing_info L else d)\<rparr>"

subsection \<open>Title block and notes\<close>

text \<open>
  \<^verbatim>\<open>str\<close> of a metadata value, as \<^verbatim>\<open>Axes.text\<close> and an f-string apply it; the
  repr of a nested mapping is written for keys and values free of quotes and backslashes.
\<close>

fun repr_items :: "(string \<times> string) list \<Rightarrow> string" where
  "repr_items [] = []"
| "repr_items [(k, v)] = quoted k @ '': '' @ quoted v"
| "repr_items ((k, v) # rest) = quoted k @ '': '' @ quoted v @ '', '' @ repr_items rest"

fun py_str :: "dval \<Rightarrow> string" where
  "py_str (Str s) = s"
| "py_str (Dict d) = ''{'' @ repr_items d @ ''}''"

text \<open>\<^verbatim>\<open>str.upper\<close>, on the ASCII letters.\<close>

definition upper_char :: "char \<Rightarrow> char" where
  "upper_char c =
     (case map_of (zip ''abcdefghijklmnopqrstuvwxyz'' ''ABCDEFGHIJKLMNOPQRSTUVWXYZ'') c of
        None \<Rightarrow> c
      | Some u \<Rightarrow> u)"

fun upper :: "dval \<Rightarrow> error + string" where
  "upper (Str s) = Inr (map upper_char s)"
| "upper (Dict d) =
     Inl (AttributeError (quoted ''dict'' @ '' object has no attribute '' @ quoted ''upper''))"

text \<open>\<^verbatim>\<open>v[k]\<close> on a metadata value: a string does not take a string index.\<close>

fun subscript :: "dval \<Rightarrow> string \<Rightarrow> error + string" where
  "subscript (Dict d) k = getitem d k"
| "subscript (Str s) k =
     Inl (TypeError (''string indices must be integers, not '' @ quoted ''str''))"

text \<open>\<^verbatim>\<open>"literal" + v\<close>: only a string can be concatenated to a string.\<close>

fun concat_str :: "string \<Rightarrow> dval \<Rightarrow> error + string" where
  "concat_str a (Str s) = Inr (a @ s)"
| "concat_str a (Dict d) =
     Inl (TypeError (''can only concatenate str (not '' @ [CHR 0x22] @ ''dict'' @ [CHR 0x22]
                     @ '') to str''))"

definition border_style :: "real \<Rightarrow> (string \<times> kw) list" where
  "border_style lw = [(''linewidth'', N lw), (''edgecolor'', S ''black''), (''facecolor'', S ''none'')]"

definition divider :: "real list \<Rightarrow> real list \<Rightarrow> cmd" where
  "divider xs ys = Plot xs ys (Some ''k-'') [(''linewidth'', N 1)]"

type_synonym field = "string \<times> real \<times> real \<times> real \<times> string"

text \<open>The list \<^verbatim>\<open>fields\<close>, from the values looked up.\<close>

definition fields_list ::
  "dval \<Rightarrow> dval \<Rightarrow> dval \<Rightarrow> dval \<Rightarrow> dval \<Rightarrow> dval \<Rightarrow> dval \<Rightarrow> dval \<Rightarrow> dval \<Rightarrow> dval \<Rightarrow> dval
     \<Rightarrow> field list" where
  "fields_list company title part_name part_number material scale projection_method units
     drawn_by date drawing_number =
     [(py_str company, 5, 9, 12, ''bold''),
      (py_str title, 5, 83 / 10, 10, ''bold''),
      (''PART NAME:'', 2 / 10, 73 / 10, 8, ''bold''),
      (py_str part_name, 32 / 10, 73 / 10, 8, ''normal''),
      (''PART NUMBER:'', 62 / 10, 73 / 10, 8, ''bold''),
      (py_str part_number, 62 / 10, 67 / 10, 8, ''normal''),
      (''MATERIAL:'', 2 / 10, 53 / 10, 8, ''bold''),
      (py_str material, 32 / 10, 53 / 10, 8, ''normal''),
      (''SCALE:'', 62 / 10, 53 / 10, 8, ''bold''),
      (py_str scale, 62 / 10, 47 / 10, 8, ''normal''),
      (''PROJECTION:'', 2 / 10, 33 / 10, 8, ''bold''),
      (py_str projection_method, 32 / 10, 33 / 10, 8, ''normal''),
      (''UNITS:'', 62 / 10, 33 / 10, 8, ''bold''),
      (py_str units, 62 / 10, 27 / 10, 8, ''normal''),
      (''DRAWN BY:'', 2 / 10, 13 / 10, 7, ''bold''),
      (py_str drawn_by, 2 / 10, 7 / 10, 7, ''normal''),
      (''DATE:'', 32 / 10, 13 / 10, 7, ''bold''),
      (py_str date, 32 / 10, 7 / 10, 7, ''normal''),
      (''DWG NO:'', 62 / 10, 13 / 10, 7, ''bold''),
      (py_str drawing_number, 62 / 10, 7 / 10, 7, ''normal'')]"

text \<open>The lookups that building the list makes, in the order of the list.\<close>

definition title_block_fields :: "info \<Rightarrow> error + field list" where
  "title_block_fields drawing_info =
     then_do (getitem drawing_info ''company'') (\<lambda>company.
     then_do (getitem drawing_info ''title'') (\<lambda>title.
     then_do (getitem drawing_info ''part_name'') (\<lambda>part_name.
     then_do (getitem drawing_info ''part_number'') (\<lambda>part_number.
     then_do (getitem drawing_info ''material'') (\<lambda>material.
     then_do (getitem drawing_info ''scale'') (\<lambda>scale.
     then_do (getitem drawing_info ''projection_method'') (\<lambda>projection_method.
     then_do (getitem drawing_info ''units'') (\<lambda>units.
     then_do (getitem drawing_info ''drawn_by'') (\<lambda>drawn_by.
     then_do (getitem drawing_info ''date'') (\<lambda>date.
     then_do (getitem drawing_info ''drawing_number'') (\<lambda>drawing_number.
       Inr (fields_list company title part_name part_number material scale
              projection_method units drawn_by date drawing_number))))))))))))"

fun field_text :: "field \<Rightarrow> cmd" where
  "field_text (text, x, y, fontsize, weight) =
     Text x y text [(''fontsize'', N fontsize), (''weight'', S weight),
                    (''ha'', S (if x < 5 then ''left'' else ''left'')), (''va'', S ''center'')]"

text \<open>The figure is the list of its axes, in the order \<^verbatim>\<open>fig.add_axes\<close> made them.\<close>

definition create_title_block :: "axes list \<Rightarrow> info \<Rightarrow> error + axes list" where
  "create_title_block fig drawing_info =
     (let tb_width = 35 / 100;
          tb_height = 25 / 100;
          tb_x = 1 - tb_width - 5 / 100;
          tb_y = 2 / 100;
          title_block_ax = call (add_axes (tb_x, tb_y, tb_width, tb_height))
            ([SetXlim 0 10, SetYlim 0 10, Axis ''off'',
              AddPatch (Rectangle (0, 0) 10 10 (border_style 2))]
             @ map (\<lambda>y. divider [0, 10] [y, y]) [2, 4, 6, 8]
             @ map (\<lambda>x. divider [x, x] [0, 6]) [3, 6])
      in then_do (title_block_fields drawing_info) (\<lambda>fields.
           Inr (fig @ [call title_block_ax (map field_text fields)])))"

definition notes_lines :: "info \<Rightarrow> error + string list" where
  "notes_lines drawing_info =
     then_do (getitem drawing_info ''units'') (\<lambda>units.
     then_do (upper units) (\<lambda>units_upper.
     then_do (getitem drawing_info ''tolerances'') (\<lambda>tol1.
     then_do (subscript tol1 ''linear'') (\<lambda>linear.
     then_do (getitem drawing_info ''tolerances'') (\<lambda>tol2.
     then_do (subscript tol2 ''angular'') (\<lambda>angular.
     then_do (getitem drawing_info ''surface_finish'') (\<lambda>surface_finish.
     then_do (getitem drawing_info ''material'') (\<lambda>material.
     then_do (concat_str ''5. MATERIAL: '' material) (\<lambda>material_note.
       Inr [''1. ALL DIMENSIONS IN '' @ units_upper,
            ''2. UNLESS OTHERWISE SPECIFIED:'',
            ''   LINEAR TOL: '' @ linear,
            ''   ANGULAR TOL: '' @ angular,
            ''3. SURFACE FINISH: '' @ py_str surface_finish,
            ''4. REMOVE ALL BURRS AND SHARP EDGES'',
            material_note])))))))))"

definition note_text :: "nat \<times> string \<Rightarrow> cmd" where
  "note_text p =
     Text (2 / 10) (75 / 10 - real (fst p) * (7 / 10)) (snd p)
       [(''fontsize'', N 8), (''ha'', S ''left''), (''va'', S ''center'')]"

definition create_notes_section :: "axes list \<Rightarrow> info \<Rightarrow> error + axes list" where
  "create_notes_section fig drawing_info =
     (let notes_ax = call (add_axes (5 / 100, 2 / 100, 4 / 10, 25 / 100))
            [SetXlim 0 10, SetYlim 0 10, Axis ''off'',
             AddPatch (Rectangle (0, 0) 10 10 (border_style (15 / 10))),
             Text 5 9 ''GENERAL NOTES''
               [(''fontsize'', N 10), (''weight'', S ''bold''), (''ha'', S ''center'')],
             divider [0, 10] [85 / 10, 85 / 10]]
      in then_do (notes_lines drawing_info) (\<lambda>notes.
           Inr (fig @ [call notes_ax (map note_text (zip [0 ..< length notes] notes))])))"

subsection \<open>The orchestrator\<close>

text \<open>A slicing plane is a mapping with the keys \<^verbatim>\<open>origin\<close> and \<^verbatim>\<open>normal\<close>.\<close>

type_synonym plane = "(string \<times> vec3) list"

text \<open>
  The views mapping keeps its insertion order, which \<^verbatim>\<open>views.items()\<close> follows:
  an association list with distinct titles.
\<close>

type_synonym views = "(string \<times> plane) list"

text \<open>The layout chosen from \<^verbatim>\<open>n_views\<close>.\<close>

definition view_positions :: "nat \<Rightarrow> rect list" where
  "view_positions n_views =
     (if n_views = 1 then [(15 / 100, 4 / 10, 3 / 10, 4 / 10)]
      else if n_views = 2 then
        [(1 / 10, 4 / 10, 25 / 100, 4 / 10), (4 / 10, 4 / 10, 25 / 100, 4 / 10)]
      else
        [(5 / 100, 4 / 10, 25 / 100, 4 / 10),
         (35 / 100, 4 / 10, 25 / 100, 4 / 10),
         (65 / 100, 4 / 10, 25 / 100, 4 / 10)])"

text \<open>
  The loop over \<^verbatim>\<open>zip(views.items(), view_positions)\<close>: one axes, one extraction and
  one rendering for each pair, in order; the first exception ends it.
\<close>

fun render_views ::
  "('mesh, 'sec) api \<Rightarrow> 'mesh \<Rightarrow> bool \<Rightarrow> ((string \<times> plane) \<times> rect) list
     \<Rightarrow> (error + axes list) \<times> 'mesh" where
  "render_views L mesh show_dimensions [] = (Inr [], mesh)"
| "render_views L mesh show_dimensions (((title, plane), pos) # rest) =
     (let ax = add_axes pos
      in case getitem plane ''origin'' of
           Inl e \<Rightarrow> (Inl e, mesh)
         | Inr origin \<Rightarrow>
         (case getitem plane ''normal'' of
            Inl e \<Rightarrow> (Inl e, mesh)
          | Inr normal \<Rightarrow>
          (case get_cross_section L mesh origin normal of
             (Inl e, mesh1) \<Rightarrow> (Inl e, mesh1)
           | (Inr path2D, mesh1) \<Rightarrow>
           (case plot_cross_section ax path2D title show_dimensions of
              Inl e \<Rightarrow> (Inl e, mesh1)
            | Inr ax1 \<Rightarrow>
            (case render_views L mesh1 show_dimensions rest of
               (Inl e, mesh2) \<Rightarrow> (Inl e, mesh2)
             | (Inr axs, mesh2) \<Rightarrow> (Inr (ax1 # axs), mesh2))))))"

record figure =
  figsize :: "real \<times> real"
  facecolor :: string
  fig_axes :: "axes list"

text \<open>What the run leaves behind: the files written and the lines printed.\<close>

record world =
  files :: "string \<rightharpoonup> figure \<times> (string \<times> kw) list"
  stdout :: "string list"

definition border_ax :: axes where
  "border_ax =
     call (add_axes (0, 0, 1, 1))
       [SetXlim 0 1, SetYlim 0 1, Axis ''off'',
        AddPatch (Rectangle (2 / 100, 2 / 100) (96 / 100) (96 / 100) (border_style 3))]"

definition savefig_kwargs :: "(string \<times> kw) list" where
  "savefig_kwargs =
     [(''dpi'', N 300), (''bbox_inches'', S ''tight''), (''facecolor'', S ''white''),
      (''edgecolor'', S ''none'')]"

definition create_engineering_drawing ::
  "('mesh, 'sec) api \<Rightarrow> 'mesh \<Rightarrow> views \<Rightarrow> info option \<Rightarrow> string \<Rightarrow> bool \<Rightarrow> world
     \<Rightarrow> (error + string) \<times> 'mesh \<times> world" where
  "create_engineering_drawing L mesh views drawing_info output_path show_dimensions w =
     (let eng_drawing = EngineeringDrawing_init L drawing_info
      in case get_mesh_dimensions L mesh of
           (Inl e, mesh1) \<Rightarrow> (Inl e, mesh1, w)
         | (Inr mesh_dims, mesh1) \<Rightarrow>
         (case figure_err L of
            Some e \<Rightarrow> (Inl e, mesh1, w)
          | None \<Rightarrow>
          (let n_views = length views
           in case render_views L mesh1 show_dimensions (zip views (view_positions n_views)) of
                (Inl e, mesh2) \<Rightarrow> (Inl e, mesh2, w)
              | (Inr fig1, mesh2) \<Rightarrow>
              (case create_title_block fig1 (self_drawing_info eng_drawing) of
                 Inl e \<Rightarrow> (Inl e, mesh2, w)
               | Inr fig2 \<Rightarrow>
               (case create_notes_section fig2 (self_drawing_info eng_drawing) of
                  Inl e \<Rightarrow> (Inl e, mesh2, w)
                | Inr fig3 \<Rightarrow>
                (let fig = \<lparr>figsize = (16, 11), facecolor = ''white'',
                            fig_axes = fig3 @ [border_ax]\<rparr>
                 in case savefig_err L output_path of
                      Some e \<Rightarrow> (Inl e, mesh2, w)
                    | None \<Rightarrow>
                    (let w1 = w\<lparr>files := (files w)(output_path \<mapsto> (fig, savefig_kwargs))\<rparr>
                     in case show_err L of
                          Some e \<Rightarrow> (Inl e, mesh2, w1)
                        | None \<Rightarrow> (Inr output_path, mesh2, w1))))))))"

subsection \<open>The script\<close>

definition STL_FILE :: string where
  "STL_FILE = ''ball-bearing.stl''"

definition OUTPUT_FILE :: string where
  "OUTPUT_FILE = ''engineering_drawing.png''"


definition slicing_planes :: views where
  "slicing_planes =
     [(''FRONT VIEW'', [(''origin'', (0, 0, 0)), (''normal'', (0, 1, 0))]),
      (''TOP VIEW'', [(''origin'', (0, 0, 0)), (''normal'', (0, 0, 1))]),
      (''RIGHT VIEW'', [(''origin'', (0, 0, 0)), (''normal'', (1, 0, 0))])]"









subsection \<open>A library instance on axis-aligned boxes\<close>

text \<open>
  An instance of the library interface on which the model runs: a mesh is a solid box
  given by its two corners, its centre of mass is the midpoint, a plane normal to an axis
  cuts it in a rectangle, and no other plane is answered. \<open>box_to_2D\<close> returns the
  rectangle as an open polyline of its four corners.
\<close>

type_synonym box = "vec3 \<times> vec3"

fun box_center :: "box \<Rightarrow> vec3" where
  "box_center ((x0, y0, z0), (x1, y1, z1)) = ((x0 + x1) / 2, (y0 + y1) / 2, (z0 + z1) / 2)"

fun box_translate :: "box \<Rightarrow> vec3 \<Rightarrow> box" where
  "box_translate (lo, hi) t = (add3 lo t, add3 hi t)"

fun box_section :: "box \<Rightarrow> vec3 \<Rightarrow> vec3 \<Rightarrow> error + (pt2 \<times> pt2) option" where
  "box_section ((x0, y0, z0), (x1, y1, z1)) (ox, oy, oz) n =
     Inr (if n = (1, 0, 0) \<and> x0 \<le> ox \<and> ox \<le> x1 then Some ((y0, z0), (y1, z1))
          else if n = (0, 1, 0) \<and> y0 \<le> oy \<and> oy \<le> y1 then Some ((x0, z0), (x1, z1))
          else if n = (0, 0, 1) \<and> z0 \<le> oz \<and> oz \<le> z1 then Some ((x0, y0), (x1, y1))
          else None)"

fun box_to_2D :: "pt2 \<times> pt2 \<Rightarrow> error + path2D \<times> real list list" where
  "box_to_2D ((a0, b0), (a1, b1)) =
     Inr (\<lparr>discrete = [[(a0, b0), (a1, b0), (a1, b1), (a0, b1)]], bounds = ((a0, b0), (a1, b1))\<rparr>,
          [[1, 0, 0, 0], [0, 1, 0, 0], [0, 0, 1, 0], [0, 0, 0, 1]])"

definition box_api :: "(box, pt2 \<times> pt2) api" where
  "box_api =
     \<lparr>load_mesh = (\<lambda>file_path.
        if file_path = ''ball-bearing.stl'' then Inr ((0, 0, 0), (10, 20, 30))
        else Inl (FileNotFoundError file_path)),
      center_mass = box_center,
      apply_translation = box_translate,
      mesh_bounds = Some,
      mesh_section = box_section,
      to_2D = box_to_2D,
      figure_err = None,
      savefig_err = (\<lambda>output_path. None),
      show_err = None,
      today = ''2025-01-01''\<rparr>"

definition empty_world :: world where
  "empty_world = \<lparr>files = Map.empty, stdout = []\<rparr>"

text \<open>The box of \<open>box_api\<close> once centred, a fourth view, and a display that fails.\<close>

definition centred_box :: box where
  "centred_box = ((- 5, - 10, - 15), (5, 10, 15))"

definition four_views :: views where
  "four_views =
     slicing_planes @ [(''SECTION A'', [(''origin'', (0, 0, 5)), (''normal'', (0, 0, 1))])]"

definition no_display_api :: "(box, pt2 \<times> pt2) api" where
  "no_display_api = box_api\<lparr>show_err := Some (OtherError ''cannot open display'')\<rparr>"

text \<open>The keys the two composers look up, in the order of the first lookup.\<close>

definition title_block_keys :: "string list" where
  "title_block_keys =
     [''company'', ''title'', ''part_name'', ''part_number'', ''material'', ''scale'',
      ''projection_method'', ''units'', ''drawn_by'', ''date'', ''drawing_number'']"

definition notes_keys :: "string list" where
  "notes_keys = [''units'', ''tolerances'', ''surface_finish'', ''material'']"


section \<open>Properties\<close>

subsection \<open>Shared lemmas\<close>


lemma round_half_even_near: "\<bar>real_of_int (round_half_even x) - x\<bar> \<le> 1 / 2"
  unfolding round_half_even_def Let_def by (auto simp: abs_if) linarith+

lemma closed_points_cases:
  assumes "path \<noteq> []"
  shows "closed_points path =
           Inr (if allclose (hd path) (last path) (1 / 100000) (1 / 100) then path
                else path @ [hd path])"
  using assms by (cases path) (simp_all add: closed_points_def is_path_closed_def)


lemma plot_polylines_all:
  assumes "[] \<notin> set paths"
  shows "plot_polylines ax paths =
           Inr (call ax (map (\<lambda>path. AddPatch (polygon_patch
                  (if allclose (hd path) (last path) (1 / 100000) (1 / 100) then path
                   else path @ [hd path]))) paths))"
  using assms
proof (induction paths arbitrary: ax)
  case Nil
  show ?case by (simp add: call_def)
next
  case (Cons path rest)
  then have ne: "path \<noteq> []" and rest: "[] \<notin> set rest" by auto
  show ?case
    by (simp add: closed_points_cases [OF ne] Cons.IH [OF rest] call_def)
qed

subsection \<open>Rendering\<close>

text \<open>
  C6. Whatever the title and the dimension toggle, \<open>plot_cross_section\<close> on the empty
  outline returns normally, and all it does to the axes is to set the title to the given
  title followed by \<open>(No section)\<close> and to switch the axes off: no patch, no line, no arrow
  and no label is drawn.
\<close>

theorem plot_cross_section_no_section:
  "plot_cross_section ax None title show_dimensions =
     Inr (ax\<lparr>cmds := cmds ax @
            [SetTitle (title @ '' (No section)'') [(''fontsize'', N 10), (''weight'', S ''bold'')],
             Axis ''off'']\<rparr>)"
  by (simp add: plot_cross_section_def call_def)






subsection \<open>Slicing and measuring\<close>


subsection \<open>The mesh is only read; the loop and the orchestrator unfolded\<close>

lemma get_cross_section_mesh: "snd (get_cross_section L mesh origin normal) = mesh"
  by (simp add: get_cross_section_def split: sum.splits option.splits)

lemma get_cross_section_meshD: "get_cross_section L mesh origin normal = (r, m) \<Longrightarrow> m = mesh"
  using get_cross_section_mesh [of L mesh origin normal] by simp

lemma get_mesh_dimensions_mesh: "snd (get_mesh_dimensions L mesh) = mesh"
  by (simp add: get_mesh_dimensions_def Let_def split: option.splits)

lemma render_views_mesh: "snd (render_views L mesh show_dimensions zs) = mesh"
proof (induction zs)
  case Nil
  show ?case by simp
next
  case (Cons z zs)
  obtain title plane pos where z: "z = ((title, plane), pos)" by (metis surj_pair)
  show ?case
    using Cons.IH
    by (auto simp: z Let_def split: sum.splits prod.splits dest!: get_cross_section_meshD)
qed

lemma create_engineering_drawing_mesh:
  "fst (snd (create_engineering_drawing L mesh views di output_path show_dimensions w)) = mesh"
  using get_mesh_dimensions_mesh [of L mesh]
        render_views_mesh [of L mesh show_dimensions "zip views (view_positions (length views))"]
  by (auto simp: create_engineering_drawing_def Let_def split: sum.splits prod.splits option.splits)

lemma plot_polylines_position:
  "plot_polylines ax paths = Inr ax' \<Longrightarrow> position ax' = position ax"
  by (induction paths arbitrary: ax) (auto simp: call_def split: sum.splits)

lemma plot_cross_section_position:
  "plot_cross_section ax p title sd = Inr ax' \<Longrightarrow> position ax' = position ax"
  by (auto simp: plot_cross_section_def call_def add_dimension_annotations_def Let_def
           split: option.splits sum.splits prod.splits dest: plot_polylines_position)

lemma render_views_Cons:
  "render_views L mesh sd (((title, plane), pos) # rest) =
     (case getitem plane ''origin'' of
        Inl e \<Rightarrow> (Inl e, mesh)
      | Inr origin \<Rightarrow>
        (case getitem plane ''normal'' of
           Inl e \<Rightarrow> (Inl e, mesh)
         | Inr normal \<Rightarrow>
           (case fst (get_cross_section L mesh origin normal) of
              Inl e \<Rightarrow> (Inl e, mesh)
            | Inr p \<Rightarrow>
              (case plot_cross_section (add_axes pos) p title sd of
                 Inl e \<Rightarrow> (Inl e, mesh)
               | Inr ax1 \<Rightarrow>
                 (case fst (render_views L mesh sd rest) of
                    Inl e \<Rightarrow> (Inl e, mesh)
                  | Inr axs \<Rightarrow> (Inr (ax1 # axs), mesh))))))"
proof (cases "getitem plane ''origin''")
  case (Inl e)
  then show ?thesis by simp
next
  case o: (Inr origin)
  show ?thesis
  proof (cases "getitem plane ''normal''")
    case (Inl e)
    with o show ?thesis by simp
  next
    case n: (Inr normal)
    obtain gr where g: "get_cross_section L mesh origin normal = (gr, mesh)"
      using get_cross_section_mesh [of L mesh origin normal] by (metis prod.collapse)
    obtain rr where r: "render_views L mesh sd rest = (rr, mesh)"
      using render_views_mesh [of L mesh sd rest] by (metis prod.collapse)
    show ?thesis
      using o n g r by (simp add: Let_def split: sum.splits)
  qed
qed

lemma render_views_panels:
  assumes "fst (render_views L mesh sd zs) = Inr axs"
  shows "list_all2 (\<lambda>z ax. \<exists>origin normal p.
            getitem (snd (fst z)) ''origin'' = Inr origin
          \<and> getitem (snd (fst z)) ''normal'' = Inr normal
          \<and> fst (get_cross_section L mesh origin normal) = Inr p
          \<and> plot_cross_section (add_axes (snd z)) p (fst (fst z)) sd = Inr ax) zs axs"
  using assms
proof (induction zs arbitrary: axs)
  case Nil
  then show ?case by simp
next
  case (Cons z zs)
  obtain title plane pos where z: "z = ((title, plane), pos)" by (metis surj_pair)
  from Cons.prems obtain origin normal p ax1 rest where
    o: "getitem plane ''origin'' = Inr origin" and n: "getitem plane ''normal'' = Inr normal"
    and g: "fst (get_cross_section L mesh origin normal) = Inr p"
    and pl: "plot_cross_section (add_axes pos) p title sd = Inr ax1"
    and r: "fst (render_views L mesh sd zs) = Inr rest" and axs: "axs = ax1 # rest"
    unfolding z render_views_Cons by (auto split: sum.splits)
  have head: "\<exists>origin normal p.
            getitem (snd (fst z)) ''origin'' = Inr origin
          \<and> getitem (snd (fst z)) ''normal'' = Inr normal
          \<and> fst (get_cross_section L mesh origin normal) = Inr p
          \<and> plot_cross_section (add_axes (snd z)) p (fst (fst z)) sd = Inr ax1"
    unfolding z using o n g pl by (intro exI [of _ origin] exI [of _ normal] exI [of _ p]) simp
  from Cons.IH [OF r] head show ?case unfolding axs by simp
qed

lemma create_engineering_drawing_unfold:
  "create_engineering_drawing L mesh views di output_path sd w =
     (case fst (get_mesh_dimensions L mesh) of
        Inl e \<Rightarrow> (Inl e, mesh, w)
      | Inr dims \<Rightarrow>
        (case figure_err L of
           Some e \<Rightarrow> (Inl e, mesh, w)
         | None \<Rightarrow>
           (case fst (render_views L mesh sd (zip views (view_positions (length views)))) of
              Inl e \<Rightarrow> (Inl e, mesh, w)
            | Inr fig1 \<Rightarrow>
              (case create_title_block fig1 (self_drawing_info (EngineeringDrawing_init L di)) of
                 Inl e \<Rightarrow> (Inl e, mesh, w)
               | Inr fig2 \<Rightarrow>
                 (case create_notes_section fig2 (self_drawing_info (EngineeringDrawing_init L di)) of
                    Inl e \<Rightarrow> (Inl e, mesh, w)
                  | Inr fig3 \<Rightarrow>
                    (case savefig_err L output_path of
                       Some e \<Rightarrow> (Inl e, mesh, w)
                     | None \<Rightarrow>
                       (case show_err L of
                          Some e \<Rightarrow>
                            (Inl e, mesh,
                             w\<lparr>files := (files w)(output_path \<mapsto>
                                (\<lparr>figsize = (16, 11), facecolor = ''white'',
                                  fig_axes = fig3 @ [border_ax]\<rparr>, savefig_kwargs))\<rparr>)
                        | None \<Rightarrow>
                            (Inr output_path, mesh,
                             w\<lparr>files := (files w)(output_path \<mapsto>
                                (\<lparr>figsize = (16, 11), facecolor = ''white'',
                                  fig_axes = fig3 @ [border_ax]\<rparr>, savefig_kwargs))\<rparr>))))))))"
proof -
  obtain dr where d: "get_mesh_dimensions L mesh = (dr, mesh)"
    using get_mesh_dimensions_mesh [of L mesh] by (metis prod.collapse)
  obtain rr where r: "render_views L mesh sd (zip views (view_positions (length views))) = (rr, mesh)"
    using render_views_mesh [of L mesh sd] by (metis prod.collapse)
  show ?thesis
    unfolding create_engineering_drawing_def Let_def d
    by (simp add: r split: sum.splits option.splits)
qed

lemma create_title_block_appends:
  "create_title_block fig d = Inr fig' \<Longrightarrow> \<exists>ax. fig' = fig @ [ax]"
  by (auto simp: create_title_block_def then_do_def Let_def split: sum.splits)

lemma create_notes_section_appends:
  "create_notes_section fig d = Inr fig' \<Longrightarrow> \<exists>ax. fig' = fig @ [ax]"
  by (auto simp: create_notes_section_def then_do_def Let_def split: sum.splits)

lemma create_engineering_drawing_success:
  assumes "create_engineering_drawing L mesh views di output_path sd w = (Inr r, mesh', w')"
  shows "\<exists>panels tb nt.
           fst (render_views L mesh sd (zip views (view_positions (length views)))) = Inr panels
         \<and> r = output_path \<and> mesh' = mesh
         \<and> w' = w\<lparr>files := (files w)(output_path \<mapsto>
                   (\<lparr>figsize = (16, 11), facecolor = ''white'',
                     fig_axes = panels @ [tb, nt, border_ax]\<rparr>, savefig_kwargs))\<rparr>"
  using assms unfolding create_engineering_drawing_unfold
  apply (auto split: sum.splits option.splits
           dest!: create_title_block_appends create_notes_section_appends)
  apply (rule exI, rule exI, rule refl)
  done

lemma length_view_positions:
  "length (view_positions n) = (if n = 1 then 1 else if n = 2 then 2 else 3)"
  by (simp add: view_positions_def)



lemma then_do_getitem:
  "then_do (getitem d k) f = (case map_of d k of None \<Rightarrow> Inl (KeyError k) | Some v \<Rightarrow> f v)"
  by (simp add: then_do_def getitem_def split: option.splits)

lemma lookup_step:
  assumes "\<And>v. map_of d k = Some v \<Longrightarrow>
             (case find (\<lambda>k. map_of d k = None) ks of
                Some k' \<Rightarrow> f v = Inl (KeyError k')
              | None \<Rightarrow> \<exists>r. f v = Inr r)"
  shows "(case find (\<lambda>k. map_of d k = None) (k # ks) of
            Some k' \<Rightarrow> then_do (getitem d k) f = Inl (KeyError k')
          | None \<Rightarrow> \<exists>r. then_do (getitem d k) f = Inr r)"
  using assms by (cases "map_of d k") (auto simp: then_do_getitem split: option.splits)

lemma title_block_fields_find:
  "(case find (\<lambda>k. map_of d k = None) title_block_keys of
      Some k \<Rightarrow> title_block_fields d = Inl (KeyError k)
    | None \<Rightarrow> \<exists>fs. title_block_fields d = Inr fs)"
  unfolding title_block_fields_def title_block_keys_def
  by (intro lookup_step) simp

lemma create_title_block_fields:
  "create_title_block fig d =
     (case title_block_fields d of
        Inl e \<Rightarrow> Inl e
      | Inr fs \<Rightarrow> Inr (fig @ [call (call (add_axes (1 - 35 / 100 - 5 / 100, 2 / 100, 35 / 100, 25 / 100))
            ([SetXlim 0 10, SetYlim 0 10, Axis ''off'',
              AddPatch (Rectangle (0, 0) 10 10 (border_style 2))]
             @ map (\<lambda>y. divider [0, 10] [y, y]) [2, 4, 6, 8]
             @ map (\<lambda>x. divider [x, x] [0, 6]) [3, 6])) (map field_text fs)]))"
  by (simp add: create_title_block_def then_do_def Let_def split: sum.splits)

lemma create_title_block_missing:
  assumes "k \<in> set title_block_keys" and "map_of d k = None"
  shows "\<exists>k'. k' \<in> set title_block_keys \<and> map_of d k' = None
            \<and> create_title_block fig d = Inl (KeyError k')"
proof (cases "find (\<lambda>k. map_of d k = None) title_block_keys")
  case None
  with assms show ?thesis by (auto simp: find_None_iff)
next
  case (Some k')
  then have "k' \<in> set title_block_keys" "map_of d k' = None"
    by (auto simp: find_Some_iff)
  moreover from title_block_fields_find [of d] Some
  have "create_title_block fig d = Inl (KeyError k')"
    by (simp add: create_title_block_fields)
  ultimately show ?thesis by blast
qed

lemma create_title_block_complete:
  assumes "\<forall>k \<in> set title_block_keys. map_of d k \<noteq> None"
  shows "\<exists>fig'. create_title_block fig d = Inr fig'"
proof -
  from assms have "find (\<lambda>k. map_of d k = None) title_block_keys = None"
    by (simp add: find_None_iff)
  with title_block_fields_find [of d] show ?thesis
    by (auto simp: create_title_block_fields)
qed

lemma create_notes_section_lines:
  "(create_notes_section fig d = Inl e) = (notes_lines d = Inl e)"
  by (simp add: create_notes_section_def then_do_def Let_def split: sum.splits)

lemma notes_lines_missing:
  assumes "k \<in> set notes_keys" and "map_of d k = None"
    and "\<forall>t. map_of d ''units'' \<noteq> Some (Dict t)"
    and "\<forall>s. map_of d ''tolerances'' \<noteq> Some (Str s)"
  shows "\<exists>k'. notes_lines d = Inl (KeyError k')"
proof (cases "map_of d ''units''")
  case None
  then show ?thesis by (simp add: notes_lines_def then_do_def getitem_def)
next
  case u: (Some units)
  with assms(3) obtain s where units: "units = Str s" by (cases units) auto
  show ?thesis
  proof (cases "map_of d ''tolerances''")
    case None
    with u units show ?thesis by (simp add: notes_lines_def then_do_def getitem_def)
  next
    case t: (Some tol)
    with assms(4) obtain td where tol: "tol = Dict td" by (cases tol) auto
    show ?thesis
    proof (cases "map_of td ''linear''")
      case None
      with u units t tol show ?thesis
        by (simp add: notes_lines_def then_do_def getitem_def)
    next
      case lin: (Some linear)
      show ?thesis
      proof (cases "map_of td ''angular''")
        case None
        with u units t tol lin show ?thesis
          by (simp add: notes_lines_def then_do_def getitem_def)
      next
        case ang: (Some angular)
        show ?thesis
        proof (cases "map_of d ''surface_finish''")
          case None
          with u units t tol lin ang show ?thesis
            by (simp add: notes_lines_def then_do_def getitem_def)
        next
          case sf: (Some surface_finish)
          from assms(1,2) u t sf have "map_of d ''material'' = None"
            by (auto simp: notes_keys_def)
          with u units t tol lin ang sf show ?thesis
            by (simp add: notes_lines_def then_do_def getitem_def)
        qed
      qed
    qed
  qed
qed

lemma default_has_keys:
  "\<forall>k \<in> set (title_block_keys @ notes_keys). map_of (get_default_drawing_info L) k \<noteq> None"
  by (simp add: title_block_keys_def notes_keys_def get_default_drawing_info_def)

lemma default_notes: "\<exists>ls. notes_lines (get_default_drawing_info L) = Inr ls"
  by (simp add: notes_lines_def then_do_def getitem_def get_default_drawing_info_def)

lemma create_engineering_drawing_returns:
  assumes "mesh_bounds L mesh \<noteq> None"
    and "figure_err L = None" and "savefig_err L output_path = None"
    and "\<not> isl (fst (render_views L mesh sd (zip views (view_positions (length views)))))"
    and "\<forall>k \<in> set title_block_keys.
           map_of (self_drawing_info (EngineeringDrawing_init L di)) k \<noteq> None"
    and "\<not> isl (notes_lines (self_drawing_info (EngineeringDrawing_init L di)))"
  shows "\<exists>fig. create_engineering_drawing L mesh views di output_path sd w =
           (case show_err L of None \<Rightarrow> Inr output_path | Some e \<Rightarrow> Inl e, mesh,
            w\<lparr>files := (files w)(output_path \<mapsto> (fig, savefig_kwargs))\<rparr>)"
proof -
  let ?info = "self_drawing_info (EngineeringDrawing_init L di)"
  from assms(1) obtain dims where d: "fst (get_mesh_dimensions L mesh) = Inr dims"
    by (auto simp: get_mesh_dimensions_def Let_def)
  from assms(4) obtain panels where
    r: "fst (render_views L mesh sd (zip views (view_positions (length views)))) = Inr panels"
    by (cases "fst (render_views L mesh sd (zip views (view_positions (length views))))") auto
  from create_title_block_complete [OF assms(5)] obtain fig2 where
    t: "create_title_block panels ?info = Inr fig2" by blast
  from assms(6) obtain ls where "notes_lines ?info = Inr ls"
    by (cases "notes_lines ?info") auto
  then obtain fig3 where n: "create_notes_section fig2 ?info = Inr fig3"
    by (simp add: create_notes_section_def then_do_def Let_def)
  show ?thesis
    unfolding create_engineering_drawing_unfold
    by (intro exI [of _ "\<lparr>figsize = (16, 11), facecolor = ''white'',
                          fig_axes = fig3 @ [border_ax]\<rparr>"])
       (simp add: d r t n assms(2,3) split: option.splits)
qed

lemma box_views_rendered:
  "\<not> isl (fst (render_views box_api centred_box True
                  (zip slicing_planes (view_positions (length slicing_planes)))))"
  "\<not> isl (fst (render_views box_api centred_box True
                  (zip four_views (view_positions (length four_views)))))"
  by (simp_all add: four_views_def slicing_planes_def view_positions_def getitem_def
        get_cross_section_def box_api_def centred_box_def plot_cross_section_def
        closed_points_def is_path_closed_def allclose_def call_def add_axes_def
        polygon_patch_def add_dimension_annotations_def Let_def)



lemma default_drawing_info_complete:
  "\<forall>k \<in> set title_block_keys. map_of (get_default_drawing_info L) k \<noteq> None"
  "\<not> isl (notes_lines (get_default_drawing_info L))"
  using default_has_keys [of L] default_notes [of L] by auto

lemma box_api_quiet:
  "mesh_bounds box_api centred_box \<noteq> None" "figure_err box_api = None"
  "savefig_err box_api OUTPUT_FILE = None" "show_err box_api = None"
  "mesh_bounds no_display_api centred_box \<noteq> None" "figure_err no_display_api = None"
  "savefig_err no_display_api OUTPUT_FILE = None"
  "show_err no_display_api = Some (OtherError ''cannot open display'')"
  by (simp_all add: box_api_def no_display_api_def)

lemma box_drawing_default:
  "fst (create_engineering_drawing box_api centred_box slicing_planes None OUTPUT_FILE True
          empty_world) = Inr OUTPUT_FILE"
  using create_engineering_drawing_returns
    [of box_api centred_box OUTPUT_FILE True slicing_planes None empty_world,
     OF box_api_quiet(1,2,3) box_views_rendered(1)]
    default_drawing_info_complete [of box_api]
  by (auto simp: EngineeringDrawing_init_def box_api_quiet)



subsection \<open>Layout and panels\<close>

text \<open>
  C1. When the views mapping has one, two or three entries, the layout chosen has as many
  positions as there are entries, and a drawing that is produced holds exactly one view
  panel for each entry, in the order of the mapping, followed by the title block, the
  notes and the border: the panel of entry \<open>i\<close> sits at position \<open>i\<close> of the layout and
  is the rendering of the one cross-section extracted for the plane of that entry.
\<close>

theorem view_panels_match_views:
  assumes "length views \<in> {1, 2, 3}"
    and "create_engineering_drawing L mesh views di output_path sd w = (Inr r, mesh', w')"
  shows "length (view_positions (length views)) = length views
       \<and> (\<exists>fig kws panels rest.
             files w' output_path = Some (fig, kws)
           \<and> fig_axes fig = panels @ rest \<and> length rest = 3
           \<and> length panels = length views
           \<and> (\<forall>i < length views.
                 position (panels ! i) = view_positions (length views) ! i
               \<and> (\<exists>origin normal p.
                     getitem (snd (views ! i)) ''origin'' = Inr origin
                   \<and> getitem (snd (views ! i)) ''normal'' = Inr normal
                   \<and> fst (get_cross_section L mesh origin normal) = Inr p
                   \<and> plot_cross_section (add_axes (view_positions (length views) ! i)) p
                        (fst (views ! i)) sd = Inr (panels ! i))))"
proof -
  let ?ps = "view_positions (length views)"
  have len: "length ?ps = length views"
    using assms(1) by (auto simp: length_view_positions)
  from create_engineering_drawing_success [OF assms(2)] obtain panels tb nt where
    rv: "fst (render_views L mesh sd (zip views ?ps)) = Inr panels"
    and w': "w' = w\<lparr>files := (files w)(output_path \<mapsto>
                   (\<lparr>figsize = (16, 11), facecolor = ''white'',
                     fig_axes = panels @ [tb, nt, border_ax]\<rparr>, savefig_kwargs))\<rparr>"
    by blast
  note rel = render_views_panels [OF rv]
  have lp: "length panels = length views"
    using list_all2_lengthD [OF rel] len by simp
  have each: "position (panels ! i) = ?ps ! i
               \<and> (\<exists>origin normal p.
                     getitem (snd (views ! i)) ''origin'' = Inr origin
                   \<and> getitem (snd (views ! i)) ''normal'' = Inr normal
                   \<and> fst (get_cross_section L mesh origin normal) = Inr p
                   \<and> plot_cross_section (add_axes (?ps ! i)) p (fst (views ! i)) sd
                        = Inr (panels ! i))" if i: "i < length views" for i
  proof -
    have iz: "i < length (zip views ?ps)" using i len by simp
    from list_all2_nthD [OF rel iz] obtain origin normal p where
      o: "getitem (snd (views ! i)) ''origin'' = Inr origin"
      and n: "getitem (snd (views ! i)) ''normal'' = Inr normal"
      and g: "fst (get_cross_section L mesh origin normal) = Inr p"
      and pl: "plot_cross_section (add_axes (?ps ! i)) p (fst (views ! i)) sd = Inr (panels ! i)"
      using i len by auto
    from plot_cross_section_position [OF pl] have "position (panels ! i) = ?ps ! i"
      by (simp add: add_axes_def)
    with o n g pl show ?thesis by blast
  qed
  show ?thesis
    using len lp each unfolding w'
    by (intro conjI exI [of _ "\<lparr>figsize = (16, 11), facecolor = ''white'',
                     fig_axes = panels @ [tb, nt, border_ax]\<rparr>"] exI [of _ savefig_kwargs]
              exI [of _ panels] exI [of _ "[tb, nt, border_ax]"]) simp_all
qed

theorem view_panels_match_views_witness:
  "length slicing_planes \<in> {1, 2, 3}
   \<and> fst (create_engineering_drawing box_api centred_box slicing_planes None OUTPUT_FILE True
            empty_world) = Inr OUTPUT_FILE
   \<and> length (view_positions (length slicing_planes)) = 3
   \<and> (\<exists>fig kws panels rest.
         files (snd (snd (create_engineering_drawing box_api centred_box slicing_planes None
                            OUTPUT_FILE True empty_world))) OUTPUT_FILE = Some (fig, kws)
       \<and> fig_axes fig = panels @ rest \<and> length rest = 3 \<and> length panels = 3)"
proof -
  have n: "length slicing_planes \<in> {1, 2, 3}" by (simp add: slicing_planes_def)
  have ok: "fst (create_engineering_drawing box_api centred_box slicing_planes None OUTPUT_FILE
                   True empty_world) = Inr OUTPUT_FILE"
    by (rule box_drawing_default)
  then have eq: "create_engineering_drawing box_api centred_box slicing_planes None OUTPUT_FILE
        True empty_world =
      (Inr OUTPUT_FILE,
       fst (snd (create_engineering_drawing box_api centred_box slicing_planes None OUTPUT_FILE
                   True empty_world)),
       snd (snd (create_engineering_drawing box_api centred_box slicing_planes None OUTPUT_FILE
                   True empty_world)))"
    by (metis prod.collapse)
  have l3: "length slicing_planes = 3" by (simp add: slicing_planes_def)
  from view_panels_match_views [OF n eq] n ok show ?thesis
    unfolding l3 by blast
qed




subsection \<open>The script\<close>





text \<open>
  C9. \<open>load_and_center_mesh\<close> returns the loaded mesh translated by the negation of its
  centre of mass, so that, the centre of mass moving with a translation, the centre of
  mass of the returned mesh is the origin; and \<open>get_cross_section\<close>,
  \<open>get_mesh_dimensions\<close> and \<open>create_engineering_drawing\<close> leave the mesh they receive as
  it was.
\<close>

theorem load_and_center_mesh_frame:
  assumes "load_mesh L file_path = Inr m"
    and "\<forall>m t. center_mass L (apply_translation L m t) = add3 (center_mass L m) t"
  shows "load_and_center_mesh L file_path = Inr (apply_translation L m (neg3 (center_mass L m)))
       \<and> (\<forall>centred. load_and_center_mesh L file_path = Inr centred
             \<longrightarrow> center_mass L centred = (0, 0, 0))
       \<and> snd (get_cross_section L mesh origin normal) = mesh
       \<and> snd (get_mesh_dimensions L mesh) = mesh
       \<and> fst (snd (create_engineering_drawing L mesh views di output_path sd w)) = mesh"
proof -
  have z: "add3 v (neg3 v) = (0, 0, 0)" for v
    by (cases v) simp
  from assms(2) have
    "center_mass L (apply_translation L m (neg3 (center_mass L m)))
       = add3 (center_mass L m) (neg3 (center_mass L m))"
    by blast
  then have c: "center_mass L (apply_translation L m (neg3 (center_mass L m))) = (0, 0, 0)"
    by (simp only: z)
  show ?thesis
    using assms(1) c
    by (simp add: load_and_center_mesh_def get_cross_section_mesh get_mesh_dimensions_mesh
                  create_engineering_drawing_mesh)
qed

theorem load_and_center_mesh_frame_witness:
  "load_mesh box_api STL_FILE = Inr ((0, 0, 0), (10, 20, 30))
   \<and> load_and_center_mesh box_api STL_FILE = Inr centred_box
   \<and> center_mass box_api centred_box = (0, 0, 0)
   \<and> snd (get_mesh_dimensions box_api centred_box) = centred_box"
proof -
  have l: "load_mesh box_api STL_FILE = Inr ((0, 0, 0), (10, 20, 30))"
    by (simp add: box_api_def STL_FILE_def)
  have e: "\<forall>m t. center_mass box_api (apply_translation box_api m t)
                  = add3 (center_mass box_api m) t"
    by (auto simp: box_api_def field_simps)
  from load_and_center_mesh_frame [OF l e, of centred_box]
  show ?thesis using l by (simp add: box_api_def centred_box_def)
qed

subsection \<open>Drawing information\<close>

text \<open>
  C10. Given \<^verbatim>\<open>None\<close> or the empty mapping, \<open>EngineeringDrawing\<close> takes the default
  template, which has every key the title block and the notes look up, so that both
  composers succeed on it. A non-empty mapping is taken as it is: if it lacks a key of
  the title block, the title block fails with a \<open>KeyError\<close> on a key it lacks; if it lacks
  a key of the notes (its units being a string and its tolerances a mapping, where
  present), the notes fail with a \<open>KeyError\<close>.
\<close>

theorem drawing_info_fallback:
  "self_drawing_info (EngineeringDrawing_init L None) = get_default_drawing_info L
   \<and> self_drawing_info (EngineeringDrawing_init L (Some [])) = get_default_drawing_info L
   \<and> (\<forall>k \<in> set (title_block_keys @ notes_keys). map_of (get_default_drawing_info L) k \<noteq> None)
   \<and> (\<exists>fig2 fig3. create_title_block fig (get_default_drawing_info L) = Inr fig2
          \<and> create_notes_section fig2 (get_default_drawing_info L) = Inr fig3)
   \<and> (d \<noteq> [] \<longrightarrow> self_drawing_info (EngineeringDrawing_init L (Some d)) = d)
   \<and> (d \<noteq> [] \<and> k \<in> set title_block_keys \<and> map_of d k = None \<longrightarrow>
        (\<exists>k'. k' \<in> set title_block_keys \<and> map_of d k' = None
           \<and> create_title_block fig (self_drawing_info (EngineeringDrawing_init L (Some d)))
               = Inl (KeyError k')))
   \<and> (d \<noteq> [] \<and> k \<in> set notes_keys \<and> map_of d k = None
        \<and> (\<forall>t. map_of d ''units'' \<noteq> Some (Dict t))
        \<and> (\<forall>s. map_of d ''tolerances'' \<noteq> Some (Str s)) \<longrightarrow>
        (\<exists>k'. create_notes_section fig (self_drawing_info (EngineeringDrawing_init L (Some d)))
               = Inl (KeyError k')))"
proof (intro conjI impI)
  show "self_drawing_info (EngineeringDrawing_init L None) = get_default_drawing_info L"
    and "self_drawing_info (EngineeringDrawing_init L (Some [])) = get_default_drawing_info L"
    by (simp_all add: EngineeringDrawing_init_def)
  show "\<forall>k \<in> set (title_block_keys @ notes_keys). map_of (get_default_drawing_info L) k \<noteq> None"
    by (rule default_has_keys)
  show "\<exists>fig2 fig3. create_title_block fig (get_default_drawing_info L) = Inr fig2
          \<and> create_notes_section fig2 (get_default_drawing_info L) = Inr fig3"
  proof -
    from default_has_keys [of L]
    have "\<forall>k \<in> set title_block_keys. map_of (get_default_drawing_info L) k \<noteq> None" by simp
    from create_title_block_complete [OF this] obtain fig2 where
      t: "create_title_block fig (get_default_drawing_info L) = Inr fig2" by blast
    from default_notes [of L] obtain ls where "notes_lines (get_default_drawing_info L) = Inr ls"
      by blast
    then have "\<exists>fig3. create_notes_section fig2 (get_default_drawing_info L) = Inr fig3"
      by (simp add: create_notes_section_def then_do_def Let_def)
    with t show ?thesis by blast
  qed
next
  assume "d \<noteq> []"
  then show "self_drawing_info (EngineeringDrawing_init L (Some d)) = d"
    by (simp add: EngineeringDrawing_init_def)
next
  assume a: "d \<noteq> [] \<and> k \<in> set title_block_keys \<and> map_of d k = None"
  then have "self_drawing_info (EngineeringDrawing_init L (Some d)) = d"
    by (simp add: EngineeringDrawing_init_def)
  with a create_title_block_missing [of k d fig]
  show "\<exists>k'. k' \<in> set title_block_keys \<and> map_of d k' = None
           \<and> create_title_block fig (self_drawing_info (EngineeringDrawing_init L (Some d)))
               = Inl (KeyError k')"
    by simp
next
  assume a: "d \<noteq> [] \<and> k \<in> set notes_keys \<and> map_of d k = None
        \<and> (\<forall>t. map_of d ''units'' \<noteq> Some (Dict t))
        \<and> (\<forall>s. map_of d ''tolerances'' \<noteq> Some (Str s))"
  then have "self_drawing_info (EngineeringDrawing_init L (Some d)) = d"
    by (simp add: EngineeringDrawing_init_def)
  moreover from a notes_lines_missing [of k d] obtain k' where "notes_lines d = Inl (KeyError k')"
    by blast
  ultimately show "\<exists>k'. create_notes_section fig
        (self_drawing_info (EngineeringDrawing_init L (Some d))) = Inl (KeyError k')"
    by (auto simp: create_notes_section_lines)
qed

theorem drawing_info_fallback_witness:
  "[(''company'', Str ''ACME'')] \<noteq> []
   \<and> ''title'' \<in> set title_block_keys \<and> ''tolerances'' \<in> set notes_keys
   \<and> map_of [(''company'', Str ''ACME'')] ''title'' = None
   \<and> map_of [(''company'', Str ''ACME'')] ''tolerances'' = None
   \<and> create_title_block []
        (self_drawing_info (EngineeringDrawing_init box_api (Some [(''company'', Str ''ACME'')])))
        = Inl (KeyError ''title'')
   \<and> create_notes_section []
        (self_drawing_info (EngineeringDrawing_init box_api (Some [(''company'', Str ''ACME'')])))
        = Inl (KeyError ''units'')
   \<and> self_drawing_info (EngineeringDrawing_init box_api (Some [])) = get_default_drawing_info box_api"
proof -
  have t: "create_title_block []
        (self_drawing_info (EngineeringDrawing_init box_api (Some [(''company'', Str ''ACME'')])))
        = Inl (KeyError ''title'')"
    by code_simp
  have n: "create_notes_section []
        (self_drawing_info (EngineeringDrawing_init box_api (Some [(''company'', Str ''ACME'')])))
        = Inl (KeyError ''units'')"
    by code_simp
  from drawing_info_fallback [of box_api "[]" "[(''company'', Str ''ACME'')]" "''title''"]
       drawing_info_fallback [of box_api "[]" "[(''company'', Str ''ACME'')]" "''tolerances''"]
       t n
  show ?thesis
    by (simp add: title_block_keys_def notes_keys_def)
qed

end
